theory Spec2Isabelle
  imports Main "HOL-Library.Word"
begin

unbundle bit_operations_syntax

section \<open>The button debouncer of button\_debounce.c\<close>

subsection \<open>Data\<close>

type_synonym u8 = "8 word"

text \<open>
  Modelled from the spec: the struct \<open>tDebouncer\<close> and the macro \<open>MAX_BUTTON_CHECKS\<close> are
  declared in \<open>button_debounce.h\<close>, which is not among the sources. The fields are the
  ones \<open>button_debounce.c\<close> reads and writes; the spec gives the cursor as an unsigned
  index and the history as an array of \<open>N\<close> bytes. The array is a list here (its length
  is \<open>N\<close> in C by its type), and \<open>MAX_BUTTON_CHECKS\<close> is the parameter \<open>N\<close> of every
  function that uses it.
\<close>

record tDebouncer =
  index :: nat
  debouncedState :: u8
  changed :: u8
  pullType :: u8
  state :: "u8 list"

subsection \<open>ButtonDebounceInit\<close>

text \<open>
  The loop \<open>for(i = 0; i < MAX_BUTTON_CHECKS; i++) port->state[i] = 0xFF;\<close>. The counter
  is a \<open>uint8_t\<close>: its increment wraps at 256, so the loop does not end when
  \<open>MAX_BUTTON_CHECKS\<close> is above 255. A result \<open>None\<close> stands for a run without a defined
  result: the loop never ends, or it touches the array outside its bounds.
\<close>

partial_function (option) init_loop :: "nat \<Rightarrow> u8 list \<Rightarrow> u8 \<Rightarrow> u8 list option" where
  "init_loop N st i =
     (if unat i < N
      then (if unat i < length st then init_loop N (st[unat i := 0xFF]) (i + 1) else None)
      else Some st)"

definition ButtonDebounceInit :: "nat \<Rightarrow> tDebouncer \<Rightarrow> u8 \<Rightarrow> tDebouncer option" where
  "ButtonDebounceInit N port pulledUpButtons =
     (case init_loop N (state port) 0 of
        None \<Rightarrow> None
      | Some st \<Rightarrow>
          Some \<lparr>index = 0, debouncedState = 0xFF, changed = 0x00,
                pullType = pulledUpButtons, state = st\<rparr>)"

subsection \<open>ButtonProcess\<close>

text \<open>
  The loop \<open>for(i = 0, port->debouncedState = 0xFF; i < MAX_BUTTON_CHECKS; i++)
  port->debouncedState = port->debouncedState & port->state[i];\<close>, again with a
  \<open>uint8_t\<close> counter. The accumulator \<open>d\<close> is \<open>port->debouncedState\<close>.
\<close>

partial_function (option) debounce_loop :: "nat \<Rightarrow> u8 list \<Rightarrow> u8 \<Rightarrow> u8 \<Rightarrow> u8 option" where
  "debounce_loop N st i d =
     (if unat i < N
      then (if unat i < length st then debounce_loop N st (i + 1) (d AND st ! unat i) else None)
      else Some d)"

text \<open>
  \<open>ButtonProcess\<close>, statement by statement. The operands of \<open>~\<close>, \<open>^\<close> and \<open>&\<close> are
  promoted to \<open>int\<close> in C and the result is cut back to a byte on assignment, which is
  the operation on bytes. The store \<open>port->state[port->index] = portStatus\<close> has no
  defined result when the cursor is outside the array: \<open>None\<close>.
\<close>

definition ButtonProcess :: "nat \<Rightarrow> tDebouncer \<Rightarrow> u8 \<Rightarrow> tDebouncer option" where
  "ButtonProcess N port portStatus =
     (let lastDebouncedState = debouncedState port;
          portStatus' = NOT (portStatus XOR pullType port)
      in if index port < length (state port)
         then (let st = (state port)[index port := portStatus']
               in case debounce_loop N st 0 0xFF of
                    None \<Rightarrow> None
                  | Some d \<Rightarrow>
                      Some \<lparr>index = (if index port + 1 \<ge> N then 0 else index port + 1),
                            debouncedState = d,
                            changed = d XOR lastDebouncedState,
                            pullType = pullType port,
                            state = st\<rparr>)
         else None)"

subsection \<open>The queries\<close>

definition ButtonPressed :: "tDebouncer \<Rightarrow> u8 \<Rightarrow> u8" where
  "ButtonPressed port GPIOButtonPins =
     (changed port AND (NOT (debouncedState port))) AND GPIOButtonPins"

definition ButtonReleased :: "tDebouncer \<Rightarrow> u8 \<Rightarrow> u8" where
  "ButtonReleased port GPIOButtonPins =
     (changed port AND debouncedState port) AND GPIOButtonPins"

definition ButtonDebounceStateGet :: "tDebouncer \<Rightarrow> u8" where
  "ButtonDebounceStateGet port = NOT (debouncedState port XOR pullType port)"

subsection \<open>Sequences of calls\<close>

text \<open>
  A caller that samples the port repeatedly: \<open>ButtonProcess\<close> once for each byte of a
  list, in order. \<open>debounce_run\<close> is \<open>ButtonDebounceInit\<close> on the caller's struct followed
  by these calls.
\<close>

fun ButtonProcess_all :: "nat \<Rightarrow> tDebouncer \<Rightarrow> u8 list \<Rightarrow> tDebouncer option" where
  "ButtonProcess_all N port [] = Some port"
| "ButtonProcess_all N port (r # rs) =
     (case ButtonProcess N port r of
        None \<Rightarrow> None
      | Some port' \<Rightarrow> ButtonProcess_all N port' rs)"

definition debounce_run :: "nat \<Rightarrow> tDebouncer \<Rightarrow> u8 \<Rightarrow> u8 list \<Rightarrow> tDebouncer option" where
  "debounce_run N port pulledUpButtons rs =
     (case ButtonDebounceInit N port pulledUpButtons of
        None \<Rightarrow> None
      | Some port' \<Rightarrow> ButtonProcess_all N port' rs)"

text \<open>The byte a history slot receives for a raw sample: line 79 of the source.\<close>

abbreviation normalized :: "u8 \<Rightarrow> u8 \<Rightarrow> u8" where
  "normalized p r \<equiv> NOT (r XOR p)"

text \<open>The conjunction of a list of bytes, starting from \<open>0xFF\<close> as the loop does.\<close>

abbreviation and_all :: "u8 list \<Rightarrow> u8" where
  "and_all st \<equiv> fold (\<lambda>h d. d AND h) st 0xFF"

section \<open>Bytes\<close>

lemma u8_FF: "(0xFF :: u8) = - 1"
  by simp

text \<open>
  The simplifier reads a bit of a byte numeral as that bit of the integer numeral, below
  the width; so the fact about \<open>0xFF\<close> is stated on \<open>int\<close> first.
\<close>

lemma bit_int_255: "bit (255 :: int) n \<longleftrightarrow> n < 8"
proof -
  have "(255 :: int) = mask 8" by (simp add: mask_eq_exp_minus_1)
  then show ?thesis by (simp only: bit_mask_iff) simp
qed

lemma bit_u8_FF: "bit (0xFF :: u8) n \<longleftrightarrow> n < 8"
  by (simp add: bit_int_255)

lemma and_u8_FF: "(x :: u8) AND 0xFF = x"
  by (simp add: u8_FF)

section \<open>The loops\<close>

lemma unat_u8_succ: "unat i < 255 \<Longrightarrow> unat (i + 1 :: u8) = Suc (unat i)"
  by (simp add: unat_word_ariths)

lemma init_loop_eq:
  "N \<le> 255 \<Longrightarrow> length st = N \<Longrightarrow> unat i \<le> N \<Longrightarrow>
   init_loop N st i = Some (take (unat i) st @ replicate (N - unat i) 0xFF)"
proof (induction "N - unat i" arbitrary: i st)
  case 0
  then show ?case by (subst init_loop.simps) simp
next
  case (Suc k)
  then have lt: "unat i < N" by linarith
  with Suc.prems have s: "unat (i + 1) = Suc (unat i)"
    by (intro unat_u8_succ) linarith
  have "init_loop N (st[unat i := 0xFF]) (i + 1) =
        Some (take (unat (i + 1)) (st[unat i := 0xFF]) @ replicate (N - unat (i + 1)) 0xFF)"
    using Suc.hyps(2) Suc.prems lt s by (intro Suc.hyps(1)) simp_all
  also have "take (unat (i + 1)) (st[unat i := 0xFF]) = take (unat i) st @ [0xFF]"
    using lt Suc.prems(2) by (simp add: s take_Suc_conv_app_nth)
  also have "(take (unat i) st @ [0xFF]) @ replicate (N - unat (i + 1)) 0xFF =
             take (unat i) st @ replicate (N - unat i) 0xFF"
    using lt by (simp add: s Suc_diff_Suc replicate_Suc [symmetric] del: replicate_Suc)
  finally show ?case
    using lt Suc.prems(2) by (subst init_loop.simps) simp
qed

lemma debounce_loop_eq:
  "N \<le> 255 \<Longrightarrow> length st = N \<Longrightarrow> unat i \<le> N \<Longrightarrow>
   debounce_loop N st i d = Some (fold (\<lambda>h d. d AND h) (drop (unat i) st) d)"
proof (induction "N - unat i" arbitrary: i d)
  case 0
  then show ?case by (subst debounce_loop.simps) simp
next
  case (Suc k)
  then have lt: "unat i < N" by linarith
  with Suc.prems have s: "unat (i + 1) = Suc (unat i)"
    by (intro unat_u8_succ) linarith
  have "debounce_loop N st (i + 1) (d AND st ! unat i) =
        Some (fold (\<lambda>h d. d AND h) (drop (unat (i + 1)) st) (d AND st ! unat i))"
    using Suc.hyps(2) Suc.prems lt s by (intro Suc.hyps(1)) simp_all
  also have "fold (\<lambda>h d. d AND h) (drop (unat (i + 1)) st) (d AND st ! unat i) =
             fold (\<lambda>h d. d AND h) (drop (unat i) st) d"
    using lt Suc.prems(2) by (simp add: s Cons_nth_drop_Suc [symmetric])
  finally show ?case
    using lt Suc.prems(2) by (subst debounce_loop.simps) simp
qed

section \<open>The functions in closed form\<close>

lemma and_all_bit:
  "bit (fold (\<lambda>h d. d AND h) st d) n \<longleftrightarrow> bit d n \<and> (\<forall>h \<in> set st. bit h n)"
  by (induction st arbitrary: d) (auto simp: bit_and_iff)

lemma ButtonDebounceInit_eq:
  assumes "N \<le> 255" and "length (state port) = N"
  shows "ButtonDebounceInit N port p =
         Some \<lparr>index = 0, debouncedState = 0xFF, changed = 0x00, pullType = p,
               state = replicate N 0xFF\<rparr>"
  using init_loop_eq [OF assms, of 0] by (simp add: ButtonDebounceInit_def)

lemma ButtonProcess_eq:
  assumes "N \<le> 255" and "length (state port) = N" and "index port < N"
  shows "ButtonProcess N port r =
         Some \<lparr>index = Suc (index port) mod N,
               debouncedState = and_all ((state port)[index port := normalized (pullType port) r]),
               changed = and_all ((state port)[index port := normalized (pullType port) r])
                         XOR debouncedState port,
               pullType = pullType port,
               state = (state port)[index port := normalized (pullType port) r]\<rparr>"
proof -
  let ?st = "(state port)[index port := normalized (pullType port) r]"
  have "debounce_loop N ?st 0 0xFF = Some (and_all ?st)"
    using debounce_loop_eq [of N ?st 0 "0xFF"] assms by simp
  moreover have "(if index port + 1 \<ge> N then 0 else index port + 1) = Suc (index port) mod N"
    using assms(3) by (cases "Suc (index port) = N") auto
  ultimately show ?thesis
    using assms by (simp add: ButtonProcess_def Let_def)
qed

section \<open>Runs: the history is a ring of the last samples\<close>

lemma and_all_replicate_FF: "fold (\<lambda>h d. d AND h) (replicate k (0xFF :: u8)) d = d"
  by (induction k arbitrary: d) (simp_all add: and_u8_FF del: fold_replicate)

lemma ButtonProcess_all_snoc:
  "ButtonProcess_all N port (rs @ [r]) =
     (case ButtonProcess_all N port rs of None \<Rightarrow> None | Some port' \<Rightarrow> ButtonProcess N port' r)"
  by (induction rs arbitrary: port) (auto split: option.splits)

lemma debounce_run_snoc:
  "debounce_run N port p (rs @ [r]) =
     (case debounce_run N port p rs of None \<Rightarrow> None | Some port' \<Rightarrow> ButtonProcess N port' r)"
  by (simp add: debounce_run_def ButtonProcess_all_snoc split: option.splits)

lemma rotate_ring_step:
  assumes "i < length xs"
  shows "rotate (Suc i mod length xs) (xs[i := v]) = tl (rotate i xs) @ [v]"
proof -
  have r: "rotate i xs = drop i xs @ take i xs"
    using assms by (simp add: rotate_drop_take)
  have t: "tl (rotate i xs) = drop (Suc i) xs @ take i xs"
    using assms by (simp add: r Cons_nth_drop_Suc [symmetric])
  show ?thesis
  proof (cases "Suc i = length xs")
    case True
    then have "xs[i := v] = take i xs @ [v]"
      using assms by (simp add: upd_conv_take_nth_drop)
    with True show ?thesis by (simp add: t)
  next
    case False
    with assms have lt: "Suc i < length xs" by simp
    then have "rotate (Suc i mod length xs) (xs[i := v]) =
               drop (Suc i) (xs[i := v]) @ take (Suc i) (xs[i := v])"
      by (simp add: rotate_drop_take)
    also have "\<dots> = drop (Suc i) xs @ take i xs @ [v]"
      using assms by (simp add: take_Suc_conv_app_nth)
    finally show ?thesis by (simp add: t)
  qed
qed

lemma debounce_run_ring:
  assumes "0 < N" and "N \<le> 255" and "length (state port) = N"
  shows "\<exists>s. debounce_run N port p rs = Some s
           \<and> index s = length rs mod N \<and> pullType s = p \<and> length (state s) = N
           \<and> rotate (index s) (state s) =
               drop (length rs) (replicate N 0xFF @ map (normalized p) rs)
           \<and> debouncedState s = and_all (state s)"
proof (induction rs rule: rev_induct)
  case Nil
  show ?case
    using assms
    by (simp add: debounce_run_def ButtonDebounceInit_eq and_all_replicate_FF del: fold_replicate)
next
  case (snoc r rs)
  then obtain s where s: "debounce_run N port p rs = Some s"
    "index s = length rs mod N" "pullType s = p" "length (state s) = N"
    "rotate (index s) (state s) = drop (length rs) (replicate N 0xFF @ map (normalized p) rs)"
    by blast
  have lt: "index s < N" using assms(1) s(2) by simp
  let ?st = "(state s)[index s := normalized p r]"
  have "rotate (Suc (index s) mod N) ?st = tl (rotate (index s) (state s)) @ [normalized p r]"
    using rotate_ring_step [of "index s" "state s"] lt s(4) by simp
  also have "\<dots> = drop (Suc (length rs)) (replicate N 0xFF @ map (normalized p) rs)
                   @ [normalized p r]"
    by (simp only: s(5) tl_drop drop_Suc)
  also have "\<dots> = drop (length (rs @ [r])) (replicate N 0xFF @ map (normalized p) (rs @ [r]))"
    using assms(1) by simp
  finally have rot: "rotate (Suc (index s) mod N) ?st =
      drop (length (rs @ [r])) (replicate N 0xFF @ map (normalized p) (rs @ [r]))" .
  have idx: "Suc (index s) mod N = length (rs @ [r]) mod N"
    by (simp add: s(2) mod_Suc_eq)
  show ?case
    using ButtonProcess_eq [OF assms(2) s(4) lt, of r] rot idx s(3,4)
    by (simp add: debounce_run_snoc s(1))
qed

lemma debounce_run_bit:
  assumes "0 < N" and "N \<le> 255" and "length (state port) = N" and "n < 8"
  shows "\<exists>s. debounce_run N port p rs = Some s \<and> pullType s = p
           \<and> (bit (debouncedState s) n \<longleftrightarrow>
                (\<forall>r \<in> set (drop (length rs - N) rs). bit r n = bit p n))"
proof -
  obtain s where s: "debounce_run N port p rs = Some s"
    "rotate (index s) (state s) = drop (length rs) (replicate N 0xFF @ map (normalized p) rs)"
    "debouncedState s = and_all (state s)" "pullType s = p"
    using debounce_run_ring [OF assms(1-3), of p rs] by blast
  have "set (state s) = set (rotate (index s) (state s))"
    by simp
  also have "\<dots> = set (replicate (N - length rs) (0xFF :: u8))
                    \<union> normalized p ` set (drop (length rs - N) rs)"
    by (simp only: s(2) drop_append drop_replicate length_replicate set_append drop_map set_map)
  finally have st: "set (state s) = set (replicate (N - length rs) (0xFF :: u8))
                    \<union> normalized p ` set (drop (length rs - N) rs)" .
  have ff: "\<forall>h \<in> set (replicate (N - length rs) (0xFF :: u8)). bit h n"
    using assms(4) by (simp add: bit_int_255)
  have nm: "bit (normalized p r) n \<longleftrightarrow> bit r n = bit p n" for r
    using assms(4) by (auto simp: bit_not_iff bit_xor_iff)
  have "(\<forall>h \<in> set (state s). bit h n) \<longleftrightarrow>
        (\<forall>r \<in> set (drop (length rs - N) rs). bit r n = bit p n)"
    unfolding st ball_Un using ff by (simp add: nm del: set_replicate)
  then show ?thesis
    using assms(4) by (simp add: s(1,3,4) and_all_bit bit_int_255)
qed

section \<open>One call of ButtonProcess\<close>

text \<open>
  C6. From a struct whose array has \<open>N\<close> entries and whose cursor is inside it
  (\<open>N\<close> at most 255, the range of the loop counter), one call of \<open>ButtonProcess\<close>
  returns, and it does exactly this: the byte \<open>NOT (portStatus XOR pullType)\<close> is stored
  in the slot at the cursor and no other slot changes; the new \<open>debouncedState\<close> is the
  bitwise AND of all entries of the array after that store; \<open>changed\<close> is the new
  \<open>debouncedState\<close> XOR the one held before the call; the cursor advances by one modulo
  \<open>N\<close> and \<open>pullType\<close> is kept.
\<close>

theorem ButtonProcess_step:
  assumes "N \<le> 255" and "length (state port) = N" and "index port < N"
  shows "\<exists>port'. ButtonProcess N port portStatus = Some port'
           \<and> state port' = (state port)[index port := NOT (portStatus XOR pullType port)]
           \<and> debouncedState port' = fold (\<lambda>h d. d AND h) (state port') 0xFF
           \<and> changed port' = debouncedState port' XOR debouncedState port
           \<and> index port' = (index port + 1) mod N
           \<and> pullType port' = pullType port"
  using ButtonProcess_eq [OF assms, of portStatus] by simp

theorem ButtonProcess_step_witness:
  "(3::nat) \<le> 255
   \<and> length (state \<lparr>index = 2, debouncedState = 0xFF, changed = 0, pullType = 0x0F,
                     state = [0xFF, 0xFF, 0xFF]\<rparr>) = 3
   \<and> index \<lparr>index = 2, debouncedState = 0xFF, changed = 0, pullType = 0x0F,
             state = [0xFF, 0xFF, 0xFF]\<rparr> < 3
   \<and> ButtonProcess 3 \<lparr>index = 2, debouncedState = 0xFF, changed = 0, pullType = 0x0F,
                       state = [0xFF, 0xFF, 0xFF]\<rparr> 0x0E
     = Some \<lparr>index = 0, debouncedState = 0xFE, changed = 0x01, pullType = 0x0F,
             state = [0xFF, 0xFF, 0xFE]\<rparr>"
  using ButtonProcess_step [of 3 "\<lparr>index = 2, debouncedState = 0xFF, changed = 0,
      pullType = 0x0F, state = [0xFF, 0xFF, 0xFF]\<rparr>" "0x0E"]
  by (auto simp: numeral_3_eq_3)

section \<open>Initialisation\<close>

text \<open>
  C7. On a struct whose array has \<open>N\<close> entries (\<open>N\<close> at most 255),
  \<open>ButtonDebounceInit\<close> returns with the cursor 0, \<open>debouncedState\<close> \<open>0xFF\<close>,
  \<open>changed\<close> \<open>0x00\<close>, the pull configuration stored and every history entry \<open>0xFF\<close>;
  on that struct \<open>ButtonPressed\<close> and \<open>ButtonReleased\<close> return 0 for every mask.
\<close>

theorem ButtonDebounceInit_fresh:
  assumes "N \<le> 255" and "length (state port) = N"
  shows "\<exists>port'. ButtonDebounceInit N port pulledUpButtons = Some port'
           \<and> index port' = 0 \<and> debouncedState port' = 0xFF \<and> changed port' = 0x00
           \<and> pullType port' = pulledUpButtons
           \<and> state port' = replicate N 0xFF
           \<and> (\<forall>pins. ButtonPressed port' pins = 0 \<and> ButtonReleased port' pins = 0)"
  using ButtonDebounceInit_eq [OF assms, of pulledUpButtons]
  by (simp add: ButtonPressed_def ButtonReleased_def)

theorem ButtonDebounceInit_fresh_witness:
  "(2::nat) \<le> 255
   \<and> length (state \<lparr>index = 7, debouncedState = 0x12, changed = 0x34, pullType = 0x56,
                     state = [0x78, 0x9A]\<rparr>) = 2
   \<and> ButtonDebounceInit 2 \<lparr>index = 7, debouncedState = 0x12, changed = 0x34, pullType = 0x56,
                            state = [0x78, 0x9A]\<rparr> 0xF0
     = Some \<lparr>index = 0, debouncedState = 0xFF, changed = 0, pullType = 0xF0,
             state = [0xFF, 0xFF]\<rparr>"
  using ButtonDebounceInit_fresh [of 2 "\<lparr>index = 7, debouncedState = 0x12, changed = 0x34,
      pullType = 0x56, state = [0x78, 0x9A]\<rparr>" "0xF0"]
  by (auto simp: numeral_2_eq_2)

section \<open>The edge reports\<close>

text \<open>
  C8. For every struct (so for every one a run can reach) and every mask, no bit is set
  in both \<open>ButtonPressed\<close> and \<open>ButtonReleased\<close>.
\<close>

theorem pressed_released_disjoint:
  "ButtonPressed port pins AND ButtonReleased port pins = 0"
  by (rule bit_eqI) (auto simp: ButtonPressed_def ButtonReleased_def bit_and_iff bit_not_iff)

text \<open>
  C9. For every struct and every mask, \<open>ButtonPressed\<close> with the mask is
  \<open>ButtonPressed\<close> with \<open>0xFF\<close>, ANDed with the mask; likewise \<open>ButtonReleased\<close>.
\<close>

theorem pressed_released_mask:
  "ButtonPressed port pins = ButtonPressed port 0xFF AND pins
   \<and> ButtonReleased port pins = ButtonReleased port 0xFF AND pins"
  by (simp add: ButtonPressed_def ButtonReleased_def and_u8_FF)

text \<open>
  C10. For every struct and every mask, the bits reported by \<open>ButtonPressed\<close> or
  \<open>ButtonReleased\<close> are exactly the bits of \<open>changed\<close> inside the mask, and none of
  them is reported by both.
\<close>

theorem pressed_released_partition:
  "ButtonPressed port pins OR ButtonReleased port pins = changed port AND pins
   \<and> ButtonPressed port pins AND ButtonReleased port pins = 0"
  by (auto intro!: bit_eqI
      simp: ButtonPressed_def ButtonReleased_def bit_and_iff bit_or_iff bit_not_iff)

section \<open>Evaluating runs on given bytes\<close>

lemma replicate_2: "replicate 2 x = [x, x]"
  by (simp add: numeral_2_eq_2)

lemma replicate_4: "replicate 4 x = [x, x, x, x]"
  by (simp add: numeral_Bit0 numeral_2_eq_2 del: replicate_Suc) simp

lemma list_update_3: "[a, b, c, d][3 := v] = [a, b, c, v]"
  by (simp add: numeral_3_eq_3)

lemmas run_eval = debounce_run_def ButtonDebounceInit_eq ButtonProcess_eq
  replicate_2 replicate_4 list_update_3

section \<open>The consensus rule\<close>

text \<open>
  C1, as the spec states it, fails: with two history slots and every input pulled up,
  one call with bit 0 low leaves bit 0 of \<open>debouncedState\<close> at 0 (pressed) while the
  other slot still holds bit 0 at 1 (at rest).
\<close>

theorem pressed_needs_all_slots_counterexample:
  "debounce_run 2 \<lparr>index = 0, debouncedState = 0, changed = 0, pullType = 0, state = [0, 0]\<rparr>
       0xFF [0xFE]
     = Some \<lparr>index = 1, debouncedState = 0xFE, changed = 0x01, pullType = 0xFF,
             state = [0xFE, 0xFF]\<rparr>
   \<and> \<not> bit (debouncedState \<lparr>index = 1, debouncedState = 0xFE, changed = 0x01,
                               pullType = 0xFF, state = [0xFE, 0xFF]\<rparr>) 0
   \<and> bit (state \<lparr>index = 1, debouncedState = 0xFE, changed = 0x01, pullType = 0xFF,
                  state = [0xFE, 0xFF]\<rparr> ! 1) 0"
  by (simp add: run_eval)

text \<open>
  C1, amended. After every call of \<open>ButtonProcess\<close> (from a struct with \<open>N\<close> entries and
  the cursor inside, which the call keeps so), for each bit: the bit of \<open>debouncedState\<close>
  is 1 (at rest) exactly when all \<open>N\<close> history slots have that bit 1. So the bit is 1
  only under unanimous "at rest", and any single slot with that bit 0 (pressed) forces
  the debounced bit to 0 (pressed).
\<close>

theorem debounced_bit_iff_all_slots:
  assumes "N \<le> 255" and "length (state port) = N" and "index port < N"
  shows "\<exists>port'. ButtonProcess N port portStatus = Some port'
           \<and> length (state port') = N \<and> index port' < N
           \<and> (\<forall>n<8. bit (debouncedState port') n \<longleftrightarrow> (\<forall>h \<in> set (state port'). bit h n))"
  using ButtonProcess_eq [OF assms, of portStatus] assms
  by (simp add: and_all_bit bit_int_255)

theorem debounced_bit_iff_all_slots_witness:
  "(2::nat) \<le> 255
   \<and> length (state \<lparr>index = 0, debouncedState = 0xFF, changed = 0, pullType = 0xFF,
                     state = [0xFF, 0xFF]\<rparr>) = 2
   \<and> index \<lparr>index = 0, debouncedState = 0xFF, changed = 0, pullType = 0xFF,
             state = [0xFF, 0xFF]\<rparr> < 2
   \<and> (\<exists>port'. ButtonProcess 2 \<lparr>index = 0, debouncedState = 0xFF, changed = 0, pullType = 0xFF,
                                 state = [0xFF, 0xFF]\<rparr> 0xFE = Some port'
         \<and> length (state port') = 2 \<and> index port' < 2
         \<and> bit (debouncedState port') 0 = (bit (state port' ! 0) 0 \<and> bit (state port' ! 1) 0))"
proof -
  obtain port' where p: "ButtonProcess 2 \<lparr>index = 0, debouncedState = 0xFF, changed = 0,
        pullType = 0xFF, state = [0xFF, 0xFF]\<rparr> 0xFE = Some port'"
      "length (state port') = 2" "index port' < 2"
      "\<forall>n<8. bit (debouncedState port') n \<longleftrightarrow> (\<forall>h \<in> set (state port'). bit h n)"
    using debounced_bit_iff_all_slots [of 2 "\<lparr>index = 0, debouncedState = 0xFF, changed = 0,
        pullType = 0xFF, state = [0xFF, 0xFF]\<rparr>" "0xFE"]
    by auto
  from p(2) obtain a b where "state port' = [a, b]"
    by (auto simp: numeral_2_eq_2 length_Suc_conv)
  with p show ?thesis by simp
qed

section \<open>Current state\<close>

text \<open>
  C4, as the spec states it, fails in its second half: with every input pulled up, after
  one call with bit 0 low, bit 0 is pressed (0 in \<open>debouncedState\<close>) and
  \<open>ButtonDebounceStateGet\<close> returns \<open>0xFE\<close>, where that bit reads 0, not 1.
\<close>

theorem StateGet_pressed_reads_one_counterexample:
  "debounce_run 2 \<lparr>index = 0, debouncedState = 0, changed = 0, pullType = 0, state = [0, 0]\<rparr>
       0xFF [0xFE]
     = Some \<lparr>index = 1, debouncedState = 0xFE, changed = 0x01, pullType = 0xFF,
             state = [0xFE, 0xFF]\<rparr>
   \<and> ButtonDebounceStateGet \<lparr>index = 1, debouncedState = 0xFE, changed = 0x01,
                               pullType = 0xFF, state = [0xFE, 0xFF]\<rparr> = 0xFE
   \<and> \<not> bit (ButtonDebounceStateGet \<lparr>index = 1, debouncedState = 0xFE, changed = 0x01,
                               pullType = 0xFF, state = [0xFE, 0xFF]\<rparr>) 0"
  by (simp add: run_eval ButtonDebounceStateGet_def)

text \<open>
  C4, amended. \<open>ButtonDebounceStateGet\<close> returns \<open>NOT (debouncedState XOR pullType)\<close>,
  and in this byte a pressed button's bit (0 in \<open>debouncedState\<close>) reads as the
  complement of its pull bit: 1 when the bit is configured pull-down, 0 when it is
  configured pull-up. That is the electrical level of a pressed input.
\<close>

theorem StateGet_sense:
  "ButtonDebounceStateGet port = NOT (debouncedState port XOR pullType port)
   \<and> (\<forall>n<8. \<not> bit (debouncedState port) n \<longrightarrow>
          (bit (ButtonDebounceStateGet port) n \<longleftrightarrow> \<not> bit (pullType port) n))"
  by (simp add: ButtonDebounceStateGet_def bit_not_iff bit_xor_iff)

theorem StateGet_sense_witness:
  "(0::nat) < 8
   \<and> \<not> bit (debouncedState \<lparr>index = 1, debouncedState = 0xFE, changed = 0x01,
                               pullType = 0x0E, state = [0xFE, 0xFF]\<rparr>) 0
   \<and> ButtonDebounceStateGet \<lparr>index = 1, debouncedState = 0xFE, changed = 0x01,
                               pullType = 0x0E, state = [0xFE, 0xFF]\<rparr> = 0x0F
   \<and> bit (ButtonDebounceStateGet \<lparr>index = 1, debouncedState = 0xFE, changed = 0x01,
                               pullType = 0x0E, state = [0xFE, 0xFF]\<rparr>) 0"
  using StateGet_sense [of "\<lparr>index = 1, debouncedState = 0xFE, changed = 0x01,
      pullType = 0x0E, state = [0xFE, 0xFF]\<rparr>"]
  by simp

section \<open>Pressing and releasing over a run\<close>

text \<open>
  C2, as the spec states it, fails in both directions: with two history slots and every
  input pulled up, a single sample with bit 0 low (not two in a row) flips bit 0 of
  \<open>debouncedState\<close> to 0 (pressed), and a single following sample with bit 0 high does
  not flip it back: it is still 0.
\<close>

theorem full_window_press_counterexample:
  "debounce_run 2 \<lparr>index = 0, debouncedState = 0, changed = 0, pullType = 0, state = [0, 0]\<rparr>
       0xFF [0xFE]
     = Some \<lparr>index = 1, debouncedState = 0xFE, changed = 0x01, pullType = 0xFF,
             state = [0xFE, 0xFF]\<rparr>
   \<and> debounce_run 2 \<lparr>index = 0, debouncedState = 0, changed = 0, pullType = 0, state = [0, 0]\<rparr>
       0xFF [0xFE, 0xFF]
     = Some \<lparr>index = 0, debouncedState = 0xFE, changed = 0x00, pullType = 0xFF,
             state = [0xFE, 0xFF]\<rparr>
   \<and> \<not> bit (0xFE :: u8) 0"
  by (simp add: run_eval)

text \<open>
  C2, amended. For every bit and every sequence of \<open>ButtonProcess\<close> calls starting from
  an initialised debouncer (\<open>N\<close> between 1 and 255), the run returns and the bit of
  \<open>debouncedState\<close> is 1 (at rest) exactly when every one of the last \<open>N\<close> samples (all
  of them, while fewer than \<open>N\<close> were taken) indicates at rest, that is, has the raw bit
  equal to the pull bit. So the bit flips to pressed (0) after a single sample indicating
  pressed, and it flips back to at rest (1) only after \<open>N\<close> consecutive samples all
  indicating at rest; at-rest samples that are never \<open>N\<close> in a row after a press never
  flip it back.
\<close>

theorem debounced_bit_window:
  assumes "0 < N" and "N \<le> 255" and "length (state port) = N" and "n < 8"
  shows "\<exists>s. debounce_run N port pulledUpButtons rs = Some s
           \<and> (bit (debouncedState s) n \<longleftrightarrow>
                (\<forall>r \<in> set (drop (length rs - N) rs). bit r n = bit pulledUpButtons n))"
  using debounce_run_bit [OF assms, of pulledUpButtons rs] by blast

theorem debounced_bit_window_witness:
  "(0::nat) < 2 \<and> (2::nat) \<le> 255
   \<and> length (state \<lparr>index = 0, debouncedState = 0, changed = 0, pullType = 0,
                     state = [0, 0]\<rparr>) = 2
   \<and> (0::nat) < 8
   \<and> (\<exists>s. debounce_run 2 \<lparr>index = 0, debouncedState = 0, changed = 0, pullType = 0,
                            state = [0, 0]\<rparr> 0xFF [0xFE, 0xFF, 0xFF, 0xFE, 0xFF] = Some s
          \<and> \<not> bit (debouncedState s) 0)"
  using debounced_bit_window [of 2 "\<lparr>index = 0, debouncedState = 0, changed = 0, pullType = 0,
      state = [0, 0]\<rparr>" 0 "0xFF" "[0xFE, 0xFF, 0xFF, 0xFE, 0xFF]"]
  by (auto simp: numeral_3_eq_3)

section \<open>The scenario with four samples\<close>

text \<open>
  C3, as the spec states it, fails: with \<open>N = 4\<close> and every input pulled up, after four
  calls with \<open>0xFE\<close> \<open>ButtonDebounceStateGet\<close> returns \<open>0xFE\<close> (not \<open>0x01\<close>) and
  \<open>ButtonPressed\<close> with \<open>0xFF\<close> returns \<open>0x00\<close> (not \<open>0x01\<close>); after one more call
  with \<open>0xFF\<close> \<open>debouncedState\<close> is still \<open>0xFE\<close> (not \<open>0xFF\<close>) and \<open>ButtonReleased\<close>
  with \<open>0xFF\<close> returns \<open>0x00\<close> (not \<open>0x01\<close>).
\<close>

theorem scenario_counterexample:
  "debounce_run 4 \<lparr>index = 0, debouncedState = 0, changed = 0, pullType = 0,
                   state = [0, 0, 0, 0]\<rparr> 0xFF [0xFE, 0xFE, 0xFE, 0xFE]
     = Some \<lparr>index = 0, debouncedState = 0xFE, changed = 0x00, pullType = 0xFF,
             state = [0xFE, 0xFE, 0xFE, 0xFE]\<rparr>
   \<and> ButtonDebounceStateGet \<lparr>index = 0, debouncedState = 0xFE, changed = 0x00,
         pullType = 0xFF, state = [0xFE, 0xFE, 0xFE, 0xFE]\<rparr> = 0xFE
   \<and> ButtonPressed \<lparr>index = 0, debouncedState = 0xFE, changed = 0x00,
         pullType = 0xFF, state = [0xFE, 0xFE, 0xFE, 0xFE]\<rparr> 0xFF = 0x00
   \<and> debounce_run 4 \<lparr>index = 0, debouncedState = 0, changed = 0, pullType = 0,
                   state = [0, 0, 0, 0]\<rparr> 0xFF [0xFE, 0xFE, 0xFE, 0xFE, 0xFF]
     = Some \<lparr>index = 1, debouncedState = 0xFE, changed = 0x00, pullType = 0xFF,
             state = [0xFF, 0xFE, 0xFE, 0xFE]\<rparr>
   \<and> ButtonReleased \<lparr>index = 1, debouncedState = 0xFE, changed = 0x00,
         pullType = 0xFF, state = [0xFF, 0xFE, 0xFE, 0xFE]\<rparr> 0xFF = 0x00"
  by (simp add: run_eval ButtonDebounceStateGet_def ButtonPressed_def ButtonReleased_def)

text \<open>
  C3, amended. With \<open>N = 4\<close> and every input pulled up, starting from
  \<open>ButtonDebounceInit\<close>: the first call with raw byte \<open>0xFE\<close> already sets
  \<open>debouncedState\<close> to \<open>0xFE\<close>, and \<open>ButtonPressed\<close> with \<open>0xFF\<close> returns \<open>0x01\<close>
  after it. After four such calls \<open>debouncedState\<close> is \<open>0xFE\<close>,
  \<open>ButtonDebounceStateGet\<close> returns \<open>0xFE\<close>, and \<open>ButtonPressed\<close> and \<open>ButtonReleased\<close>
  with \<open>0xFF\<close> both return \<open>0x00\<close>. After one further call with raw byte \<open>0xFF\<close>
  \<open>debouncedState\<close> is still \<open>0xFE\<close> and \<open>ButtonReleased\<close> with \<open>0xFF\<close> returns
  \<open>0x00\<close>; after four calls with \<open>0xFF\<close> \<open>debouncedState\<close> is \<open>0xFF\<close> and
  \<open>ButtonReleased\<close> with \<open>0xFF\<close> returns \<open>0x01\<close>.
\<close>

theorem scenario_four_samples:
  assumes "length (state port) = 4"
  shows "\<exists>s1 s4 s5 s8.
           debounce_run 4 port 0xFF [0xFE] = Some s1
         \<and> debouncedState s1 = 0xFE \<and> ButtonPressed s1 0xFF = 0x01
         \<and> debounce_run 4 port 0xFF [0xFE, 0xFE, 0xFE, 0xFE] = Some s4
         \<and> debouncedState s4 = 0xFE \<and> ButtonDebounceStateGet s4 = 0xFE
         \<and> ButtonPressed s4 0xFF = 0x00 \<and> ButtonReleased s4 0xFF = 0x00
         \<and> debounce_run 4 port 0xFF [0xFE, 0xFE, 0xFE, 0xFE, 0xFF] = Some s5
         \<and> debouncedState s5 = 0xFE \<and> ButtonReleased s5 0xFF = 0x00
         \<and> debounce_run 4 port 0xFF [0xFE, 0xFE, 0xFE, 0xFE, 0xFF, 0xFF, 0xFF, 0xFF] = Some s8
         \<and> debouncedState s8 = 0xFF \<and> ButtonReleased s8 0xFF = 0x01"
  using assms
  by (simp add: run_eval ButtonDebounceStateGet_def ButtonPressed_def ButtonReleased_def)

theorem scenario_four_samples_witness:
  "length (state \<lparr>index = 9, debouncedState = 0x11, changed = 0x22, pullType = 0x33,
                  state = [0x44, 0x55, 0x66, 0x77]\<rparr>) = 4
   \<and> (\<exists>s4. debounce_run 4 \<lparr>index = 9, debouncedState = 0x11, changed = 0x22, pullType = 0x33,
                             state = [0x44, 0x55, 0x66, 0x77]\<rparr> 0xFF [0xFE, 0xFE, 0xFE, 0xFE]
              = Some s4
           \<and> debouncedState s4 = 0xFE \<and> ButtonDebounceStateGet s4 = 0xFE
           \<and> ButtonPressed s4 0xFF = 0x00 \<and> ButtonReleased s4 0xFF = 0x00)"
  using scenario_four_samples [of "\<lparr>index = 9, debouncedState = 0x11, changed = 0x22,
      pullType = 0x33, state = [0x44, 0x55, 0x66, 0x77]\<rparr>"]
  by auto

section \<open>Pull-up against pull-down\<close>

text \<open>
  C5, as the spec states it, fails: an instance with every input pulled up fed \<open>0xFF\<close>
  and an instance with every input pulled down fed the inverted byte \<open>0x00\<close> return
  \<open>0xFF\<close> and \<open>0x00\<close> from \<open>ButtonDebounceStateGet\<close> after that call, not the same byte.
\<close>

theorem pull_symmetry_counterexample:
  "debounce_run 2 \<lparr>index = 0, debouncedState = 0, changed = 0, pullType = 0, state = [0, 0]\<rparr>
       0xFF [0xFF]
     = Some \<lparr>index = 1, debouncedState = 0xFF, changed = 0x00, pullType = 0xFF,
             state = [0xFF, 0xFF]\<rparr>
   \<and> debounce_run 2 \<lparr>index = 0, debouncedState = 0, changed = 0, pullType = 0, state = [0, 0]\<rparr>
       0x00 (map NOT [0xFF])
     = Some \<lparr>index = 1, debouncedState = 0xFF, changed = 0x00, pullType = 0x00,
             state = [0xFF, 0xFF]\<rparr>
   \<and> ButtonDebounceStateGet \<lparr>index = 1, debouncedState = 0xFF, changed = 0x00,
         pullType = 0xFF, state = [0xFF, 0xFF]\<rparr> = 0xFF
   \<and> ButtonDebounceStateGet \<lparr>index = 1, debouncedState = 0xFF, changed = 0x00,
         pullType = 0x00, state = [0xFF, 0xFF]\<rparr> = 0x00"
  by (simp add: run_eval ButtonDebounceStateGet_def)

text \<open>
  C5, amended. For every raw input sequence and every bit, an instance with the bit
  configured pull-up fed that sequence and an instance with the bit configured pull-down
  fed the bitwise-inverted sequence both return, with the same value of that bit in
  \<open>debouncedState\<close> and with opposite values of that bit in \<open>ButtonDebounceStateGet\<close>,
  after each corresponding \<open>ButtonProcess\<close> call (\<open>N\<close> between 1 and 255).
\<close>

theorem pull_symmetry:
  assumes "0 < N" and "N \<le> 255"
    and "length (state portA) = N" and "length (state portB) = N"
    and "n < 8" and "bit pullA n" and "\<not> bit pullB n"
  shows "\<exists>a b. debounce_run N portA pullA rs = Some a
             \<and> debounce_run N portB pullB (map NOT rs) = Some b
             \<and> bit (debouncedState a) n = bit (debouncedState b) n
             \<and> bit (ButtonDebounceStateGet a) n \<noteq> bit (ButtonDebounceStateGet b) n"
proof -
  let ?w = "drop (length rs - N) rs"
  obtain a where a: "debounce_run N portA pullA rs = Some a" "pullType a = pullA"
      "bit (debouncedState a) n \<longleftrightarrow> (\<forall>r \<in> set ?w. bit r n = bit pullA n)"
    using debounce_run_bit [OF assms(1,2,3,5), of pullA rs] by blast
  obtain b where b: "debounce_run N portB pullB (map NOT rs) = Some b" "pullType b = pullB"
      "bit (debouncedState b) n \<longleftrightarrow>
         (\<forall>r \<in> set (drop (length (map NOT rs) - N) (map NOT rs)). bit r n = bit pullB n)"
    using debounce_run_bit [OF assms(1,2,4,5), of pullB "map NOT rs"] by blast
  have wa: "bit (debouncedState a) n \<longleftrightarrow> (\<forall>r \<in> set ?w. bit r n)"
    using assms(6) by (simp add: a(3))
  have "drop (length (map NOT rs) - N) (map NOT rs) = map NOT ?w"
    by (simp add: drop_map)
  then have "bit (debouncedState b) n \<longleftrightarrow> (\<forall>r \<in> set ?w. bit (NOT r) n = bit pullB n)"
    by (simp only: b(3) set_map ball_simps)
  then have wb: "bit (debouncedState b) n \<longleftrightarrow> (\<forall>r \<in> set ?w. bit r n)"
    using assms(5,7) by (simp add: bit_not_iff)
  have d: "bit (debouncedState a) n = bit (debouncedState b) n"
    by (simp only: wa wb)
  have "bit (ButtonDebounceStateGet a) n \<noteq> bit (ButtonDebounceStateGet b) n"
    using assms(5,6,7) d
    by (simp add: ButtonDebounceStateGet_def a(2) b(2) bit_not_iff bit_xor_iff)
  with d a(1) b(1) show ?thesis by blast
qed

theorem pull_symmetry_witness:
  "(0::nat) < 2 \<and> (2::nat) \<le> 255
   \<and> length (state \<lparr>index = 0, debouncedState = 0, changed = 0, pullType = 0,
                     state = [0, 0]\<rparr>) = 2
   \<and> length (state \<lparr>index = 5, debouncedState = 1, changed = 2, pullType = 3,
                     state = [4, 5]\<rparr>) = 2
   \<and> (0::nat) < 8 \<and> bit (0x01 :: u8) 0 \<and> \<not> bit (0xF0 :: u8) 0
   \<and> (\<exists>a b. debounce_run 2 \<lparr>index = 0, debouncedState = 0, changed = 0, pullType = 0,
                              state = [0, 0]\<rparr> 0x01 [0x00, 0x01, 0x01] = Some a
            \<and> debounce_run 2 \<lparr>index = 5, debouncedState = 1, changed = 2, pullType = 3,
                              state = [4, 5]\<rparr> 0xF0 (map NOT [0x00, 0x01, 0x01]) = Some b
            \<and> bit (debouncedState a) 0 = bit (debouncedState b) 0
            \<and> bit (ButtonDebounceStateGet a) 0 \<noteq> bit (ButtonDebounceStateGet b) 0)"
  using pull_symmetry [of 2 "\<lparr>index = 0, debouncedState = 0, changed = 0, pullType = 0,
      state = [0, 0]\<rparr>" "\<lparr>index = 5, debouncedState = 1, changed = 2, pullType = 3,
      state = [4, 5]\<rparr>" 0 "0x01" "0xF0" "[0x00, 0x01, 0x01]"]
  by simp

end
